theory Spec2Isabelle
  imports Main "HOL-Library.Word"
begin

section \<open>Blob log format: data model\<close>

text \<open>
  Shallow embedding of \<^verbatim>\<open>utilities/blob_db/blob_log_format.h\<close>. Fixed-width
  unsigned integers are words of the same width; \<^verbatim>\<open>size_t\<close> constants are
  natural numbers (the sums involved stay far below any \<^verbatim>\<open>size_t\<close> range); an
  owning nullable pointer \<^verbatim>\<open>std::unique_ptr<T>\<close> is a \<open>T option\<close>; a
  \<^verbatim>\<open>Slice\<close> and a \<^verbatim>\<open>std::string\<close> are lists of bytes.
\<close>

type_synonym uint8_t = "8 word"
type_synonym uint32_t = "32 word"
type_synonym uint64_t = "64 word"
type_synonym bytes = "uint8_t list"

text \<open>\<^verbatim>\<open>std::numeric_limits<uintN_t>::max()\<close>: all bits set.\<close>

definition uint32_max :: uint32_t where
  "uint32_max = - 1"

definition uint64_max :: uint64_t where
  "uint64_max = - 1"

text \<open>\<^verbatim>\<open>constexpr uint64_t kNoExpiration = std::numeric_limits<uint64_t>::max();\<close>\<close>

definition kNoExpiration :: uint64_t where
  "kNoExpiration = uint64_max"

subsection \<open>Record type and subtype tags\<close>

datatype RecordType = kFullType | kFirstType | kMiddleType | kLastType

text \<open>The enumerators' values, of underlying type \<^verbatim>\<open>uint8_t\<close>.\<close>

fun RecordType_value :: "RecordType \<Rightarrow> uint8_t" where
  "RecordType_value kFullType = 0"
| "RecordType_value kFirstType = 1"
| "RecordType_value kMiddleType = 2"
| "RecordType_value kLastType = 3"

definition kMaxRecordType :: RecordType where
  "kMaxRecordType = kLastType"

datatype RecordSubType = kRegularType | kTTLType | kTimestampType

fun RecordSubType_value :: "RecordSubType \<Rightarrow> uint8_t" where
  "RecordSubType_value kRegularType = 0"
| "RecordSubType_value kTTLType = 1"
| "RecordSubType_value kTimestampType = 2"

type_synonym ttlrange_t = "uint64_t \<times> uint64_t"
type_synonym tsrange_t = "uint64_t \<times> uint64_t"
type_synonym snrange_t = "uint64_t \<times> uint64_t"

subsection \<open>BlobLogHeader\<close>

text \<open>
  \<^verbatim>\<open>CompressionType\<close> is declared in \<^verbatim>\<open>rocksdb/options.h\<close>, outside this
  header; it is the type parameter \<open>'c\<close>.
\<close>

record 'c BlobLogHeader =
  hdr_magic_number :: uint32_t
  hdr_version :: uint32_t
  hdr_compression :: 'c
  hdr_ttl_guess :: "ttlrange_t option"
  hdr_ts_guess :: "tsrange_t option"

text \<open>
  The members as the class declares them: \<^verbatim>\<open>version_ = 1\<close> and both
  \<^verbatim>\<open>unique_ptr\<close> members empty. The constructor \<^verbatim>\<open>BlobLogHeader()\<close> is
  defined outside this header, so the magic number and the compression kind it stores are
  parameters.
\<close>

definition BlobLogHeader_initial :: "uint32_t \<Rightarrow> 'c \<Rightarrow> 'c BlobLogHeader" where
  "BlobLogHeader_initial magic ct =
     \<lparr>hdr_magic_number = magic, hdr_version = 1, hdr_compression = ct,
      hdr_ttl_guess = None, hdr_ts_guess = None\<rparr>"

definition set_ttl_guess :: "ttlrange_t \<Rightarrow> 'c BlobLogHeader \<Rightarrow> 'c BlobLogHeader" where
  "set_ttl_guess ttl h = h\<lparr>hdr_ttl_guess := Some ttl\<rparr>"

definition set_version :: "uint32_t \<Rightarrow> 'c BlobLogHeader \<Rightarrow> 'c BlobLogHeader" where
  "set_version v h = h\<lparr>hdr_version := v\<rparr>"

definition set_ts_guess :: "tsrange_t \<Rightarrow> 'c BlobLogHeader \<Rightarrow> 'c BlobLogHeader" where
  "set_ts_guess ts h = h\<lparr>hdr_ts_guess := Some ts\<rparr>"

text \<open>magic number + version + flags + ttl guess + timestamp range\<close>

definition BlobLogHeader_kHeaderSize :: nat where
  "BlobLogHeader_kHeaderSize = 4 + 4 + 4 + 8 * 2 + 8 * 2"

definition BlobLogHeader_ttl_range :: "'c BlobLogHeader \<Rightarrow> ttlrange_t" where
  "BlobLogHeader_ttl_range h =
     (case hdr_ttl_guess h of None \<Rightarrow> (0, 0) | Some r \<Rightarrow> r)"

definition BlobLogHeader_ts_range :: "'c BlobLogHeader \<Rightarrow> tsrange_t" where
  "BlobLogHeader_ts_range h =
     (case hdr_ts_guess h of None \<Rightarrow> (0, 0) | Some r \<Rightarrow> r)"

definition BlobLogHeader_HasTTL :: "'c BlobLogHeader \<Rightarrow> bool" where
  "BlobLogHeader_HasTTL h = (hdr_ttl_guess h \<noteq> None)"

definition BlobLogHeader_HasTimestamp :: "'c BlobLogHeader \<Rightarrow> bool" where
  "BlobLogHeader_HasTimestamp h = (hdr_ts_guess h \<noteq> None)"

subsection \<open>BlobLogFooter\<close>

record BlobLogFooter =
  ftr_magic_number :: uint32_t
  ftr_blob_count :: uint64_t
  ftr_ttl_range :: "ttlrange_t option"
  ftr_ts_range :: "tsrange_t option"
  ftr_sn_range :: snrange_t

text \<open>
  The members as the class declares them: \<^verbatim>\<open>blob_count_ = 0\<close>, both
  \<^verbatim>\<open>unique_ptr\<close> members empty, the sequence-number pair value-initialised. The
  constructor \<^verbatim>\<open>BlobLogFooter()\<close> is defined outside this header, so the magic
  number it stores is the parameter \<open>magic\<close>.
\<close>

definition BlobLogFooter_initial :: "uint32_t \<Rightarrow> BlobLogFooter" where
  "BlobLogFooter_initial magic =
     \<lparr>ftr_magic_number = magic, ftr_blob_count = 0, ftr_ttl_range = None,
      ftr_ts_range = None, ftr_sn_range = (0, 0)\<rparr>"

definition set_ttl_range :: "ttlrange_t \<Rightarrow> BlobLogFooter \<Rightarrow> BlobLogFooter" where
  "set_ttl_range ttl f = f\<lparr>ftr_ttl_range := Some ttl\<rparr>"

definition set_time_range :: "tsrange_t \<Rightarrow> BlobLogFooter \<Rightarrow> BlobLogFooter" where
  "set_time_range ts f = f\<lparr>ftr_ts_range := Some ts\<rparr>"

text \<open>4 byte magic number, 4, 8 bytes count, 8, 8 - ttl range, 8, 8 - sn range, 8, 8 - ts range\<close>

definition BlobLogFooter_kFooterSize :: nat where
  "BlobLogFooter_kFooterSize = 4 + 4 + 8 + (8 * 2) + (8 * 2) + (8 * 2)"

definition BlobLogFooter_HasTTL :: "BlobLogFooter \<Rightarrow> bool" where
  "BlobLogFooter_HasTTL f = (ftr_ttl_range f \<noteq> None)"

definition BlobLogFooter_HasTimestamp :: "BlobLogFooter \<Rightarrow> bool" where
  "BlobLogFooter_HasTimestamp f = (ftr_ts_range f \<noteq> None)"

definition GetBlobCount :: "BlobLogFooter \<Rightarrow> uint64_t" where
  "GetBlobCount f = ftr_blob_count f"

text \<open>
  \<^verbatim>\<open>if (ttl_range_) { *ttl_range_; } return {0, 0};\<close> The body of the conditional
  is an expression statement whose value is discarded; both branches fall through to the
  same \<^verbatim>\<open>return\<close>.
\<close>

definition GetTTLRange :: "BlobLogFooter \<Rightarrow> ttlrange_t" where
  "GetTTLRange f =
     (case ftr_ttl_range f of None \<Rightarrow> (0, 0) | Some r \<Rightarrow> (0, 0))"

text \<open>\<^verbatim>\<open>if (ts_range_) { return *ts_range_; } return {0, 0};\<close>\<close>

definition GetTimeRange :: "BlobLogFooter \<Rightarrow> tsrange_t" where
  "GetTimeRange f =
     (case ftr_ts_range f of None \<Rightarrow> (0, 0) | Some r \<Rightarrow> r)"

definition GetSNRange :: "BlobLogFooter \<Rightarrow> snrange_t" where
  "GetSNRange f = ftr_sn_range f"

subsection \<open>BlobLogRecord\<close>

record BlobLogRecord =
  rec_checksum :: uint32_t
  rec_header_cksum :: uint32_t
  rec_key_size :: uint32_t
  rec_blob_size :: uint64_t
  rec_time_val :: uint64_t
  rec_ttl_val :: uint64_t
  rec_type :: uint8_t
  rec_subtype :: uint8_t
  rec_key :: bytes
  rec_blob :: bytes

text \<open>\<^verbatim>\<open>static const size_t kHeaderSize = 4 + 4 + 8 + 8 + 4 + 8 + 1 + 1;\<close>\<close>

definition BlobLogRecord_kHeaderSize :: nat where
  "BlobLogRecord_kHeaderSize = 4 + 4 + 8 + 8 + 4 + 8 + 1 + 1"

definition Key :: "BlobLogRecord \<Rightarrow> bytes" where
  "Key r = rec_key r"

definition Blob :: "BlobLogRecord \<Rightarrow> bytes" where
  "Blob r = rec_blob r"

definition GetKeySize :: "BlobLogRecord \<Rightarrow> uint32_t" where
  "GetKeySize r = rec_key_size r"

definition GetBlobSize :: "BlobLogRecord \<Rightarrow> uint64_t" where
  "GetBlobSize r = rec_blob_size r"

text \<open>
  \<^verbatim>\<open>return ttl_val_ != std::numeric_limits<uint32_t>::max();\<close> The right operand
  has type \<^verbatim>\<open>uint32_t\<close> and is converted to \<^verbatim>\<open>uint64_t\<close> (zero-extended)
  for the comparison.
\<close>

definition BlobLogRecord_HasTTL :: "BlobLogRecord \<Rightarrow> bool" where
  "BlobLogRecord_HasTTL r = (rec_ttl_val r \<noteq> ucast uint32_max)"

definition GetTTL :: "BlobLogRecord \<Rightarrow> uint64_t" where
  "GetTTL r = rec_ttl_val r"

definition GetTimeVal :: "BlobLogRecord \<Rightarrow> uint64_t" where
  "GetTimeVal r = rec_time_val r"

definition BlobLogRecord_type :: "BlobLogRecord \<Rightarrow> uint8_t" where
  "BlobLogRecord_type r = rec_type r"

definition BlobLogRecord_subtype :: "BlobLogRecord \<Rightarrow> uint8_t" where
  "BlobLogRecord_subtype r = rec_subtype r"

definition header_checksum :: "BlobLogRecord \<Rightarrow> uint32_t" where
  "header_checksum r = rec_header_cksum r"

definition checksum :: "BlobLogRecord \<Rightarrow> uint32_t" where
  "checksum r = rec_checksum r"

subsection \<open>The documented byte layouts\<close>

text \<open>
  The field widths of section 6 of the specification, in order, kept apart from the
  constants of the header file so that the two can be compared.
\<close>

definition spec_header_layout :: "nat list" where
  "spec_header_layout = [4, 4, 4, 8, 8, 8, 8]"

definition spec_footer_layout :: "nat list" where
  "spec_footer_layout = [4, 4, 8, 8, 8, 8, 8, 8, 8]"

definition spec_record_header_layout :: "nat list" where
  "spec_record_header_layout = [4, 4, 4, 8, 8, 8, 1, 1]"

section \<open>Record codec\<close>

text \<open>
  The header file declares \<^verbatim>\<open>Status DecodeHeaderFrom(const Slice& hdrslice)\<close>; its
  body, the record encoder and the payload decoder live in files that are not part of the
  sources at hand. They are modelled here from sections 4.3 and 6 of the specification. Two
  things the specification leaves open are parameters of the model: the checksum function
  \<open>cksum\<close> and the byte order \<open>e\<close> of multi-byte integers.
\<close>

text \<open>
  Modelled from the spec: the errors of section 7 that decoding a record can report (the
  status codes of the decoders are missing from the sources).
\<close>

datatype CorruptionError = TruncatedInput | HeaderChecksumMismatch | PayloadChecksumMismatch

text \<open>
  Modelled from the spec: the byte order, which section 6 leaves to the format version
  (the coding helpers are missing from the sources).
\<close>

datatype endianness = LittleEndian | BigEndian

text \<open>
  Modelled from the spec: the fixed-width integer fields of the byte layout (the coding
  helpers are missing from the sources). \<open>encode_fixed n v\<close> is the \<open>n\<close> low-order
  bytes of \<open>v\<close>, least significant first; \<open>decode_fixed\<close> reads such a list back.
\<close>

fun encode_fixed :: "nat \<Rightarrow> nat \<Rightarrow> bytes" where
  "encode_fixed 0 v = []"
| "encode_fixed (Suc n) v = of_nat (v mod 256) # encode_fixed n (v div 256)"

fun decode_fixed :: "bytes \<Rightarrow> nat" where
  "decode_fixed [] = 0"
| "decode_fixed (b # bs) = unat b + 256 * decode_fixed bs"

text \<open>
  Modelled from the spec: ``all multi-byte integers in a single consistent endianness fixed
  by the format version'' (the coding helpers are missing from the sources).
\<close>

fun put_fixed :: "endianness \<Rightarrow> nat \<Rightarrow> nat \<Rightarrow> bytes" where
  "put_fixed LittleEndian n v = encode_fixed n v"
| "put_fixed BigEndian n v = rev (encode_fixed n v)"

fun get_fixed :: "endianness \<Rightarrow> bytes \<Rightarrow> nat" where
  "get_fixed LittleEndian bs = decode_fixed bs"
| "get_fixed BigEndian bs = decode_fixed (rev bs)"

text \<open>
  Modelled from the spec: the 4-byte and 8-byte fields of the layouts of section 6, written
  and read as unsigned integers (the coding helpers are missing from the sources).
\<close>

definition put32 :: "endianness \<Rightarrow> uint32_t \<Rightarrow> bytes" where
  "put32 e w = put_fixed e 4 (unat w)"

definition put64 :: "endianness \<Rightarrow> uint64_t \<Rightarrow> bytes" where
  "put64 e w = put_fixed e 8 (unat w)"

definition get32 :: "endianness \<Rightarrow> bytes \<Rightarrow> uint32_t" where
  "get32 e bs = of_nat (get_fixed e bs)"

definition get64 :: "endianness \<Rightarrow> bytes \<Rightarrow> uint64_t" where
  "get64 e bs = of_nat (get_fixed e bs)"

text \<open>
  A checksum function to run the codec on concrete inputs: the sum of the bytes. Any other
  function of the bytes would do; the codec takes the checksum as a parameter.
\<close>

definition sum_cksum :: "bytes \<Rightarrow> uint32_t" where
  "sum_cksum bs = of_nat (sum_list (map unat bs))"

text \<open>
  Modelled from the spec: the TTL field written for an optional TTL (the record encoder is
  missing from the sources). ``A TTL field equal to the maximum representable 64-bit value
  denotes no TTL'': an absent TTL is written as \<^verbatim>\<open>kNoExpiration\<close>.
\<close>

definition ttl_field :: "uint64_t option \<Rightarrow> uint64_t" where
  "ttl_field ttl = (case ttl of None \<Rightarrow> kNoExpiration | Some t \<Rightarrow> t)"

text \<open>
  Modelled from the spec: the metadata fields the header checksum covers, in layout order
  (the record encoder is missing from the sources): key_size(4), blob_size(8), ttl(8),
  timestamp(8), type(1), subtype(1).
\<close>

definition encode_header_fields ::
  "endianness \<Rightarrow> uint32_t \<Rightarrow> uint64_t \<Rightarrow> uint64_t \<Rightarrow> uint64_t \<Rightarrow> uint8_t \<Rightarrow> uint8_t \<Rightarrow> bytes" where
  "encode_header_fields e key_size blob_size ttl ts ty sty =
     put32 e key_size @ put64 e blob_size @ put64 e ttl @ put64 e ts @ [ty] @ [sty]"

text \<open>
  Modelled from the spec: \<^verbatim>\<open>encode(key, blob, ttl?, timestamp, sequenceNumber)\<close> of
  section 4.3 (the record encoder is missing from the sources). It emits the header
  checksum, the payload checksum over key followed by blob, the fixed header fields, the
  key and the blob; the record type is ``full''. The layout has no field for the sequence
  number, so \<open>sn\<close> is accepted and not written. The specification does not say how the
  subtype tag is chosen, so the tag \<open>sub\<close> is an argument.
\<close>

definition RecordCodec_encode ::
  "(bytes \<Rightarrow> uint32_t) \<Rightarrow> endianness \<Rightarrow> RecordSubType \<Rightarrow>
   bytes \<Rightarrow> bytes \<Rightarrow> uint64_t option \<Rightarrow> uint64_t \<Rightarrow> uint64_t \<Rightarrow> bytes" where
  "RecordCodec_encode cksum e sub key blob ttl ts sn =
     (let flds = encode_header_fields e (of_nat (length key)) (of_nat (length blob))
                     (ttl_field ttl) ts (RecordType_value kFullType) (RecordSubType_value sub)
      in put32 e (cksum flds) @ put32 e (cksum (key @ blob)) @ flds @ key @ blob)"

text \<open>
  Modelled from the spec: \<^verbatim>\<open>decodeHeader\<close> of section 4.3, the body of the declared
  member \<^verbatim>\<open>BlobLogRecord::DecodeHeaderFrom\<close> (its definition is missing from the
  sources). It reads the fixed portion, whose length is the constant
  \<^verbatim>\<open>kHeaderSize\<close> of the header file, and checks the header checksum before any
  length field is stored. The record \<open>r\<close> is the object the member is called on.
\<close>

definition DecodeHeaderFrom ::
  "(bytes \<Rightarrow> uint32_t) \<Rightarrow> endianness \<Rightarrow> bytes \<Rightarrow> BlobLogRecord \<Rightarrow> CorruptionError + BlobLogRecord" where
  "DecodeHeaderFrom cksum e hdrslice r =
     (if length hdrslice < BlobLogRecord_kHeaderSize then Inl TruncatedInput
      else
        let hc = get32 e (take 4 hdrslice);
            pc = get32 e (take 4 (drop 4 hdrslice));
            flds = take (BlobLogRecord_kHeaderSize - 8) (drop 8 hdrslice)
        in if cksum flds \<noteq> hc then Inl HeaderChecksumMismatch
           else Inr (r\<lparr>rec_checksum := pc,
                       rec_header_cksum := hc,
                       rec_key_size := get32 e (take 4 flds),
                       rec_blob_size := get64 e (take 8 (drop 4 flds)),
                       rec_time_val := get64 e (take 8 (drop 20 flds)),
                       rec_ttl_val := get64 e (take 8 (drop 12 flds)),
                       rec_type := flds ! 28,
                       rec_subtype := flds ! 29\<rparr>))"

text \<open>
  Modelled from the spec: \<^verbatim>\<open>decodePayload(headerInfo, bytes)\<close> of section 4.3 (the
  reader is missing from the sources). It requires exactly key_size + blob_size bytes and
  checks the payload checksum.
\<close>

definition decodePayload ::
  "(bytes \<Rightarrow> uint32_t) \<Rightarrow> BlobLogRecord \<Rightarrow> bytes \<Rightarrow> CorruptionError + bytes \<times> bytes" where
  "decodePayload cksum r bs =
     (if length bs \<noteq> unat (GetKeySize r) + unat (GetBlobSize r) then Inl TruncatedInput
      else if cksum bs \<noteq> checksum r then Inl PayloadChecksumMismatch
      else Inr (take (unat (GetKeySize r)) bs, drop (unat (GetKeySize r)) bs))"

text \<open>
  Modelled from the spec: decoding one encoded record, header first and payload second,
  storing key and blob in the record (the reader is missing from the sources).
\<close>

definition RecordCodec_decode ::
  "(bytes \<Rightarrow> uint32_t) \<Rightarrow> endianness \<Rightarrow> bytes \<Rightarrow> BlobLogRecord \<Rightarrow> CorruptionError + BlobLogRecord" where
  "RecordCodec_decode cksum e bs r0 =
     (case DecodeHeaderFrom cksum e (take BlobLogRecord_kHeaderSize bs) r0 of
        Inl err \<Rightarrow> Inl err
      | Inr r \<Rightarrow>
          (case decodePayload cksum r (drop BlobLogRecord_kHeaderSize bs) of
             Inl err \<Rightarrow> Inl err
           | Inr (k, b) \<Rightarrow> Inr (r\<lparr>rec_key := k, rec_blob := b\<rparr>)))"

section \<open>Writer\<close>

text \<open>
  The writer is not part of the sources at hand; it is modelled from section 4.5 of the
  specification. Block framing is left out: the specification fixes neither the block size
  nor the fragment frame, and the properties below concern the running aggregates only.
\<close>

text \<open>
  Modelled from the spec: the contract errors of section 7 (the writer is missing from the
  sources).
\<close>

datatype ContractError = SequenceOrderViolation | WriterClosed

text \<open>
  Modelled from the spec: \<^verbatim>\<open>RecordLocation{offset, length}\<close> of section 6 (the writer
  is missing from the sources).
\<close>

record RecordLocation =
  loc_offset :: nat
  loc_length :: nat

text \<open>
  Modelled from the spec: the state a Writer owns (the writer is missing from the
  sources): the running TTL, timestamp and sequence-number ranges, the record count,
  whether the file has been closed, and the offset at which the next record begins.
\<close>

record Writer =
  wr_ttl_range :: "ttlrange_t option"
  wr_ts_range :: "tsrange_t option"
  wr_sn_range :: "snrange_t option"
  wr_count :: uint64_t
  wr_closed :: bool
  wr_offset :: nat

text \<open>
  Modelled from the spec: \<^verbatim>\<open>open\<close> of section 4.5 (the writer is missing from the
  sources). The header is written at once, so the first record begins after it; no record
  has been appended and every range hint is absent.
\<close>

definition Writer_open :: Writer where
  "Writer_open =
     \<lparr>wr_ttl_range = None, wr_ts_range = None, wr_sn_range = None, wr_count = 0,
      wr_closed = False, wr_offset = BlobLogHeader_kHeaderSize\<rparr>"

text \<open>
  Modelled from the spec: widening a running range by one more value (the writer is
  missing from the sources).
\<close>

definition widen :: "(uint64_t \<times> uint64_t) option \<Rightarrow> uint64_t \<Rightarrow> (uint64_t \<times> uint64_t) option" where
  "widen r v = (case r of None \<Rightarrow> Some (v, v) | Some (lo, hi) \<Rightarrow> Some (min lo v, max hi v))"

text \<open>
  Modelled from the spec: whether a sequence number is lower than the maximum sequence
  number appended so far, read off the running sequence-number range (the writer is
  missing from the sources).
\<close>

definition below_max_sn :: "uint64_t \<Rightarrow> Writer \<Rightarrow> bool" where
  "below_max_sn sn w = (case wr_sn_range w of None \<Rightarrow> False | Some (lo, hi) \<Rightarrow> sn < hi)"

text \<open>
  Modelled from the spec: \<^verbatim>\<open>append(key, blob, ttl?, timestamp, sequenceNumber)\<close> of
  section 4.5 (the writer is missing from the sources). The result pairs the outcome with
  the writer's state after the call. ``Calling append after close fails with
  WriterClosed'', whatever the arguments; on an open file a sequence number below the
  maximum appended so far fails with \<^verbatim>\<open>SequenceOrderViolation\<close>. Otherwise the
  ranges and the count are updated and the location of the record is returned.
\<close>

definition Writer_append ::
  "bytes \<Rightarrow> bytes \<Rightarrow> uint64_t option \<Rightarrow> uint64_t \<Rightarrow> uint64_t \<Rightarrow> Writer \<Rightarrow>
   (ContractError + RecordLocation) \<times> Writer" where
  "Writer_append key blob ttl ts sn w =
     (if wr_closed w then (Inl WriterClosed, w)
      else if below_max_sn sn w then (Inl SequenceOrderViolation, w)
      else
        let len = BlobLogRecord_kHeaderSize + length key + length blob
        in (Inr \<lparr>loc_offset = wr_offset w, loc_length = len\<rparr>,
            w\<lparr>wr_ttl_range := (case ttl of None \<Rightarrow> wr_ttl_range w
                                | Some t \<Rightarrow> widen (wr_ttl_range w) t),
              wr_ts_range := widen (wr_ts_range w) ts,
              wr_sn_range := widen (wr_sn_range w) sn,
              wr_count := wr_count w + 1,
              wr_offset := wr_offset w + len\<rparr>))"

text \<open>
  Modelled from the spec: \<^verbatim>\<open>close\<close> of section 4.5 (the writer is missing from the
  sources): the footer carries the aggregated ranges and the count, and the file is marked
  closed. The footer's sequence-number range is always present; with no record it is the
  zero pair.
\<close>

definition Writer_close :: "uint32_t \<Rightarrow> Writer \<Rightarrow> BlobLogFooter \<times> Writer" where
  "Writer_close magic w =
     (\<lparr>ftr_magic_number = magic, ftr_blob_count = wr_count w,
       ftr_ttl_range = wr_ttl_range w, ftr_ts_range = wr_ts_range w,
       ftr_sn_range = (case wr_sn_range w of None \<Rightarrow> (0, 0) | Some r \<Rightarrow> r)\<rparr>,
      w\<lparr>wr_closed := True\<rparr>)"

text \<open>
  Modelled from the spec: a call of \<^verbatim>\<open>append\<close> or of \<^verbatim>\<open>close\<close> on a writer
  (the writer is missing from the sources).
\<close>

datatype WriterCall =
  Append bytes bytes "uint64_t option" uint64_t uint64_t
| Close uint32_t

text \<open>
  Modelled from the spec: the effect of one call on the writer's state, paired with the
  sequence numbers of the records appended so far, oldest first (the writer is missing
  from the sources). A refused append appends nothing.
\<close>

fun Writer_call :: "WriterCall \<Rightarrow> Writer \<times> uint64_t list \<Rightarrow> Writer \<times> uint64_t list" where
  "Writer_call (Append key blob ttl ts sn) (w, h) =
     (case Writer_append key blob ttl ts sn w of
        (Inl err, w') \<Rightarrow> (w', h)
      | (Inr loc, w') \<Rightarrow> (w', h @ [sn]))"
| "Writer_call (Close magic) (w, h) = (snd (Writer_close magic w), h)"

text \<open>
  Modelled from the spec: the state of a writer after \<^verbatim>\<open>open\<close> and a list of calls,
  with the sequence numbers appended so far (the writer is missing from the sources).
\<close>

definition Writer_run :: "WriterCall list \<Rightarrow> Writer \<times> uint64_t list" where
  "Writer_run calls = fold Writer_call calls (Writer_open, [])"

section \<open>Sizes and tags\<close>

lemma BlobLogRecord_kHeaderSize_eq: "BlobLogRecord_kHeaderSize = 38"
  by (simp add: BlobLogRecord_kHeaderSize_def)

text \<open>
  Claim C1, as stated: the record header constant \<^verbatim>\<open>BlobLogRecord::kHeaderSize\<close>
  equals 42. The constant does not: the expression in the header file evaluates to 38.
\<close>

theorem C1_record_header_size_not_42: "BlobLogRecord_kHeaderSize \<noteq> 42"
  by (simp add: BlobLogRecord_kHeaderSize_def)

text \<open>
  Claim C1, amended: \<^verbatim>\<open>BlobLogRecord::kHeaderSize\<close> equals 38, which is exactly the
  sum of the documented field widths header_checksum(4), payload_checksum(4), key_size(4),
  blob_size(8), ttl(8), timestamp(8), type(1), subtype(1).
\<close>

theorem C1_record_header_size_is_38:
  "BlobLogRecord_kHeaderSize = 38 \<and>
   sum_list spec_record_header_layout = BlobLogRecord_kHeaderSize"
  by (simp add: BlobLogRecord_kHeaderSize_def spec_record_header_layout_def)

text \<open>
  Claim C8: the file header constant \<^verbatim>\<open>BlobLogHeader::kHeaderSize\<close> equals 44 and
  the footer constant \<^verbatim>\<open>BlobLogFooter::kFooterSize\<close> equals 64, and each is the sum
  of the documented field widths of its layout.
\<close>

theorem C8_header_footer_sizes:
  "BlobLogHeader_kHeaderSize = 44 \<and> BlobLogFooter_kFooterSize = 64 \<and>
   sum_list spec_header_layout = BlobLogHeader_kHeaderSize \<and>
   sum_list spec_footer_layout = BlobLogFooter_kFooterSize"
  by (simp add: BlobLogHeader_kHeaderSize_def BlobLogFooter_kFooterSize_def
      spec_header_layout_def spec_footer_layout_def)

text \<open>
  Claim C9: the record type tags are full = 0, first = 1, middle = 2, last = 3 (the largest
  one), and the record subtype tags are regular = 0, has-ttl = 1, has-timestamp = 2.
\<close>

theorem C9_record_tags:
  "RecordType_value kFullType = 0 \<and> RecordType_value kFirstType = 1 \<and>
   RecordType_value kMiddleType = 2 \<and> RecordType_value kLastType = 3 \<and>
   RecordType_value kMaxRecordType = 3 \<and>
   RecordSubType_value kRegularType = 0 \<and> RecordSubType_value kTTLType = 1 \<and>
   RecordSubType_value kTimestampType = 2"
  by (simp add: kMaxRecordType_def)

section \<open>Presence of TTL and of ranges\<close>

lemma ucast_uint32_max: "(ucast uint32_max :: uint64_t) = 4294967295"
proof -
  have "uint32_max = 4294967295"
    by (simp add: uint32_max_def)
  then have "(ucast uint32_max :: uint64_t) = ucast (4294967295 :: uint32_t)"
    by (rule arg_cong)
  also have "\<dots> = 4294967295"
    by simp
  finally show ?thesis .
qed

lemma kNoExpiration_eq: "kNoExpiration = 18446744073709551615"
  by (simp add: kNoExpiration_def uint64_max_def)

text \<open>
  Claim C2 says that \<^verbatim>\<open>BlobLogRecord::HasTTL()\<close> holds exactly when the TTL field
  differs from the 64-bit maximum \<^verbatim>\<open>kNoExpiration\<close>. The code compares with the
  32-bit maximum instead: \<^verbatim>\<open>HasTTL()\<close> holds exactly when the TTL field differs from
  \<open>2\<^sup>3\<^sup>2 - 1\<close>. So a record whose TTL field is \<^verbatim>\<open>kNoExpiration\<close> is reported to
  have a TTL, and a record whose TTL is \<open>2\<^sup>3\<^sup>2 - 1\<close> is reported to have none.
\<close>

theorem C2_HasTTL_compares_with_uint32_max:
  "BlobLogRecord_HasTTL r = (GetTTL r \<noteq> 4294967295) \<and>
   BlobLogRecord_HasTTL (r\<lparr>rec_ttl_val := kNoExpiration\<rparr>) \<and>
   \<not> BlobLogRecord_HasTTL (r\<lparr>rec_ttl_val := 4294967295\<rparr>)"
  by (simp add: BlobLogRecord_HasTTL_def GetTTL_def ucast_uint32_max kNoExpiration_eq)

text \<open>
  Claim C3 says that \<^verbatim>\<open>BlobLogFooter::GetTTLRange()\<close> returns the stored range when
  one is present. The code returns the pair (0, 0) for every footer: after
  \<^verbatim>\<open>set_ttl_range({1, 2})\<close> the footer has a TTL range and \<^verbatim>\<open>GetTTLRange()\<close>
  is (0, 0), while the sibling \<^verbatim>\<open>GetTimeRange()\<close> returns what
  \<^verbatim>\<open>set_time_range({1, 2})\<close> stored.
\<close>

theorem C3_GetTTLRange_drops_stored_range:
  "GetTTLRange f = (0, 0) \<and>
   BlobLogFooter_HasTTL (set_ttl_range (1, 2) f) \<and>
   GetTTLRange (set_ttl_range (1, 2) f) = (0, 0) \<and>
   BlobLogFooter_HasTimestamp (set_time_range (1, 2) f) \<and>
   GetTimeRange (set_time_range (1, 2) f) = (1, 2)"
  by (simp add: GetTTLRange_def GetTimeRange_def BlobLogFooter_HasTTL_def
      BlobLogFooter_HasTimestamp_def set_ttl_range_def set_time_range_def
      split: option.split)

text \<open>
  Claim C6: the footer of a file with no record, that is the footer object as the class
  declares its members, has record count 0 and neither a TTL range nor a timestamp range;
  its range accessors return the pair (0, 0). So do the range accessors of a footer and of
  a header whose range is absent.
\<close>

theorem C6_empty_file_footer:
  "GetBlobCount (BlobLogFooter_initial magic) = 0 \<and>
   \<not> BlobLogFooter_HasTTL (BlobLogFooter_initial magic) \<and>
   \<not> BlobLogFooter_HasTimestamp (BlobLogFooter_initial magic) \<and>
   GetTTLRange (BlobLogFooter_initial magic) = (0, 0) \<and>
   GetTimeRange (BlobLogFooter_initial magic) = (0, 0) \<and>
   GetTTLRange (f\<lparr>ftr_ttl_range := None\<rparr>) = (0, 0) \<and>
   GetTimeRange (f\<lparr>ftr_ts_range := None\<rparr>) = (0, 0) \<and>
   BlobLogHeader_ttl_range (h\<lparr>hdr_ttl_guess := None\<rparr>) = (0, 0) \<and>
   BlobLogHeader_ts_range (h\<lparr>hdr_ts_guess := None\<rparr>) = (0, 0)"
  by (simp add: BlobLogFooter_initial_def GetBlobCount_def BlobLogFooter_HasTTL_def
      BlobLogFooter_HasTimestamp_def GetTTLRange_def GetTimeRange_def
      BlobLogHeader_ttl_range_def BlobLogHeader_ts_range_def)

text \<open>
  Claim C10: for a header whose TTL hint (timestamp hint) is absent, \<^verbatim>\<open>ttl_range()\<close>
  (\<^verbatim>\<open>ts_range()\<close>) returns (0, 0). The accessor therefore returns the same pair for an
  absent hint and for a present hint (0, 0), and \<^verbatim>\<open>HasTTL()\<close>
  (\<^verbatim>\<open>HasTimestamp()\<close>) tells the two apart.
\<close>

theorem C10_absent_hint_reads_as_zero:
  "(hdr_ttl_guess h = None \<longrightarrow> BlobLogHeader_ttl_range h = (0, 0)) \<and>
   (hdr_ts_guess h = None \<longrightarrow> BlobLogHeader_ts_range h = (0, 0)) \<and>
   BlobLogHeader_ttl_range (h\<lparr>hdr_ttl_guess := None\<rparr>) =
     BlobLogHeader_ttl_range (set_ttl_guess (0, 0) h) \<and>
   \<not> BlobLogHeader_HasTTL (h\<lparr>hdr_ttl_guess := None\<rparr>) \<and>
   BlobLogHeader_HasTTL (set_ttl_guess (0, 0) h) \<and>
   BlobLogHeader_ts_range (h\<lparr>hdr_ts_guess := None\<rparr>) =
     BlobLogHeader_ts_range (set_ts_guess (0, 0) h) \<and>
   \<not> BlobLogHeader_HasTimestamp (h\<lparr>hdr_ts_guess := None\<rparr>) \<and>
   BlobLogHeader_HasTimestamp (set_ts_guess (0, 0) h)"
  by (simp add: BlobLogHeader_ttl_range_def BlobLogHeader_ts_range_def
      BlobLogHeader_HasTTL_def BlobLogHeader_HasTimestamp_def set_ttl_guess_def
      set_ts_guess_def)

text \<open>
  Claim C10 at the header as declared, with magic number 7 and compression kind 0: both
  hints are absent and both accessors return (0, 0).
\<close>

theorem C10_absent_hint_reads_as_zero_witness:
  "hdr_ttl_guess (BlobLogHeader_initial 7 (0::nat)) = None \<and>
   BlobLogHeader_ttl_range (BlobLogHeader_initial 7 (0::nat)) = (0, 0) \<and>
   hdr_ts_guess (BlobLogHeader_initial 7 (0::nat)) = None \<and>
   BlobLogHeader_ts_range (BlobLogHeader_initial 7 (0::nat)) = (0, 0)"
proof -
  have a: "hdr_ttl_guess (BlobLogHeader_initial 7 (0::nat)) = None"
    and b: "hdr_ts_guess (BlobLogHeader_initial 7 (0::nat)) = None"
    by (simp_all add: BlobLogHeader_initial_def)
  from C10_absent_hint_reads_as_zero [of "BlobLogHeader_initial 7 (0::nat)"] a b
  show ?thesis by blast
qed

section \<open>Record codec: round trip\<close>

lemma length_encode_fixed [simp]: "length (encode_fixed n v) = n"
  by (induction n arbitrary: v) simp_all

lemma decode_encode_fixed: "decode_fixed (encode_fixed n v) = v mod 256 ^ n"
proof (induction n arbitrary: v)
  case 0
  show ?case by simp
next
  case (Suc n)
  have "unat (of_nat (v mod 256) :: uint8_t) = v mod 256"
    by (simp add: unat_of_nat)
  with Suc show ?case
    by (simp add: mod_mult2_eq)
qed

lemma length_put_fixed [simp]: "length (put_fixed e n v) = n"
  by (cases e) simp_all

lemma get_put_fixed: "get_fixed e (put_fixed e n v) = v mod 256 ^ n"
  by (cases e) (simp_all add: decode_encode_fixed)

lemma get32_put32 [simp]: "get32 e (put32 e w) = w"
proof -
  have "unat w < 4294967296"
    using unsigned_less [of w] by simp
  then show ?thesis
    by (simp add: get32_def put32_def get_put_fixed)
qed

lemma get64_put64 [simp]: "get64 e (put64 e w) = w"
proof -
  have "unat w < 18446744073709551616"
    using unsigned_less [of w] by simp
  then show ?thesis
    by (simp add: get64_def put64_def get_put_fixed)
qed

lemma length_put32 [simp]: "length (put32 e w) = 4"
  by (simp add: put32_def)

lemma length_put64 [simp]: "length (put64 e w) = 8"
  by (simp add: put64_def)

lemma length_encode_header_fields [simp]:
  "length (encode_header_fields e ks bs ttl ts ty sty) = 30"
  by (simp add: encode_header_fields_def)

text \<open>The encoded fixed portion is as long as the header file's constant says.\<close>

lemma length_encoded_header:
  "length (put32 e hc @ put32 e pc @ encode_header_fields e ks bs ttl ts ty sty) =
   BlobLogRecord_kHeaderSize"
  by (simp add: BlobLogRecord_kHeaderSize_eq)

lemma decode_encode_header:
  fixes cksum :: "bytes \<Rightarrow> uint32_t"
  assumes "flds = encode_header_fields e ks bs ttl ts ty sty"
  shows "DecodeHeaderFrom cksum e (put32 e (cksum flds) @ put32 e pc @ flds) r =
     Inr (r\<lparr>rec_checksum := pc, rec_header_cksum := cksum flds, rec_key_size := ks,
            rec_blob_size := bs, rec_time_val := ts, rec_ttl_val := ttl,
            rec_type := ty, rec_subtype := sty\<rparr>)"
proof -
  have len: "length flds = 30"
    using assms by simp
  have parts: "take 4 flds = put32 e ks" "take 8 (drop 4 flds) = put64 e bs"
    "take 8 (drop 12 flds) = put64 e ttl" "take 8 (drop 20 flds) = put64 e ts"
    "flds ! 28 = ty" "flds ! 29 = sty"
    using assms by (simp_all add: encode_header_fields_def nth_append)
  show ?thesis
    using len by (simp add: DecodeHeaderFrom_def BlobLogRecord_kHeaderSize_eq Let_def parts)
qed

text \<open>A header whose checksum field does not match its metadata is refused.\<close>

lemma decode_header_checksum_mismatch:
  fixes cksum :: "bytes \<Rightarrow> uint32_t"
  assumes "flds = encode_header_fields e ks bs ttl ts ty sty" and "hc \<noteq> cksum flds"
  shows "DecodeHeaderFrom cksum e (put32 e hc @ put32 e pc @ flds) r =
     Inl HeaderChecksumMismatch"
proof -
  have "length flds = 30"
    using assms(1) by simp
  with assms(2) show ?thesis
    by (auto simp: DecodeHeaderFrom_def BlobLogRecord_kHeaderSize_eq Let_def)
qed

lemma round_trip_record:
  fixes cksum :: "bytes \<Rightarrow> uint32_t"
  assumes k: "length key < 2 ^ 32" and b: "length blob < 2 ^ 64"
  shows "RecordCodec_decode cksum e (RecordCodec_encode cksum e sub key blob ttl ts sn) r0 =
     Inr (r0\<lparr>rec_checksum := cksum (key @ blob),
             rec_header_cksum := cksum (encode_header_fields e (of_nat (length key))
                (of_nat (length blob)) (ttl_field ttl) ts (RecordType_value kFullType)
                (RecordSubType_value sub)),
             rec_key_size := of_nat (length key), rec_blob_size := of_nat (length blob),
             rec_time_val := ts, rec_ttl_val := ttl_field ttl,
             rec_type := RecordType_value kFullType, rec_subtype := RecordSubType_value sub,
             rec_key := key, rec_blob := blob\<rparr>)"
proof -
  define flds where "flds = encode_header_fields e (of_nat (length key))
     (of_nat (length blob)) (ttl_field ttl) ts (RecordType_value kFullType)
     (RecordSubType_value sub)"
  define hdr where "hdr = put32 e (cksum flds) @ put32 e (cksum (key @ blob)) @ flds"
  have enc: "RecordCodec_encode cksum e sub key blob ttl ts sn = hdr @ key @ blob"
    by (simp add: RecordCodec_encode_def Let_def flds_def hdr_def)
  have lh: "length hdr = BlobLogRecord_kHeaderSize"
    unfolding hdr_def flds_def by (rule length_encoded_header)
  have uk: "unat (of_nat (length key) :: uint32_t) = length key"
    using k by (simp add: unat_of_nat)
  have ub: "unat (of_nat (length blob) :: uint64_t) = length blob"
    using b by (simp add: unat_of_nat)
  have dh: "DecodeHeaderFrom cksum e hdr r0 =
     Inr (r0\<lparr>rec_checksum := cksum (key @ blob), rec_header_cksum := cksum flds,
            rec_key_size := of_nat (length key), rec_blob_size := of_nat (length blob),
            rec_time_val := ts, rec_ttl_val := ttl_field ttl,
            rec_type := RecordType_value kFullType,
            rec_subtype := RecordSubType_value sub\<rparr>)"
    unfolding hdr_def by (rule decode_encode_header) (simp add: flds_def)
  show ?thesis
    unfolding enc RecordCodec_decode_def
    by (simp add: lh dh decodePayload_def GetKeySize_def GetBlobSize_def checksum_def uk ub
        flds_def)
qed

text \<open>
  Claim C4: for a key shorter than \<open>2\<^sup>3\<^sup>2\<close> bytes, a blob shorter than \<open>2\<^sup>6\<^sup>4\<close> bytes,
  an optional TTL, any timestamp and any sequence number, decoding the header and the
  payload of the encoded record succeeds and gives back the key bytes, the blob bytes, both
  sizes, the TTL field as it was written (the TTL itself, or \<^verbatim>\<open>kNoExpiration\<close> for
  an absent one), the timestamp, the type ``full'' and the subtype that was written. This
  holds for every checksum function and either byte order.
\<close>

theorem C4_round_trip:
  fixes cksum :: "bytes \<Rightarrow> uint32_t"
  assumes "length key < 2 ^ 32" and "length blob < 2 ^ 64"
  shows "\<exists>r. RecordCodec_decode cksum e
                (RecordCodec_encode cksum e sub key blob ttl ts sn) r0 = Inr r \<and>
     Key r = key \<and> Blob r = blob \<and>
     unat (GetKeySize r) = length key \<and> unat (GetBlobSize r) = length blob \<and>
     GetTTL r = ttl_field ttl \<and> GetTimeVal r = ts \<and>
     BlobLogRecord_type r = RecordType_value kFullType \<and>
     BlobLogRecord_subtype r = RecordSubType_value sub"
proof -
  have uk: "unat (of_nat (length key) :: uint32_t) = length key"
    using assms(1) by (simp add: unat_of_nat)
  have ub: "unat (of_nat (length blob) :: uint64_t) = length blob"
    using assms(2) by (simp add: unat_of_nat)
  show ?thesis
    unfolding round_trip_record [OF assms]
    by (simp add: Key_def Blob_def GetKeySize_def GetBlobSize_def GetTTL_def
        GetTimeVal_def BlobLogRecord_type_def BlobLogRecord_subtype_def uk ub)
qed

text \<open>
  Claim C4 at the key 1, 2, the blob 3, the TTL 5, the timestamp 7 and the sequence
  number 9, little-endian, with the sum of the bytes as checksum.
\<close>

theorem C4_round_trip_witness:
  "length [1, 2 :: uint8_t] < 2 ^ 32 \<and> length [3 :: uint8_t] < 2 ^ 64 \<and>
   (\<exists>r. RecordCodec_decode sum_cksum LittleEndian
          (RecordCodec_encode sum_cksum LittleEndian kTTLType [1, 2] [3] (Some 5) 7 9)
          \<lparr>rec_checksum = 0, rec_header_cksum = 0, rec_key_size = 0, rec_blob_size = 0,
           rec_time_val = 0, rec_ttl_val = 0, rec_type = 0, rec_subtype = 0,
           rec_key = [], rec_blob = []\<rparr> = Inr r \<and>
     Key r = [1, 2] \<and> Blob r = [3] \<and>
     unat (GetKeySize r) = length [1, 2 :: uint8_t] \<and>
     unat (GetBlobSize r) = length [3 :: uint8_t] \<and>
     GetTTL r = ttl_field (Some 5) \<and> GetTimeVal r = 7 \<and>
     BlobLogRecord_type r = RecordType_value kFullType \<and>
     BlobLogRecord_subtype r = RecordSubType_value kTTLType)"
proof -
  have h1: "length [1, 2 :: uint8_t] < 2 ^ 32"
    by simp
  have h2: "length [3 :: uint8_t] < 2 ^ 64"
    by simp
  from C4_round_trip [OF h1 h2] h1 h2 show ?thesis
    by blast
qed

text \<open>
  What \<^verbatim>\<open>HasTTL()\<close> of the header file answers on a decoded record: it compares the
  TTL field with \<open>2\<^sup>3\<^sup>2 - 1\<close>, so a record written without a TTL is reported to have
  one, and a record written with the TTL \<open>2\<^sup>3\<^sup>2 - 1\<close> is reported to have none.
\<close>

lemma decoded_record_HasTTL:
  fixes cksum :: "bytes \<Rightarrow> uint32_t"
  assumes "length key < 2 ^ 32" and "length blob < 2 ^ 64"
    and "RecordCodec_decode cksum e
           (RecordCodec_encode cksum e sub key blob ttl ts sn) r0 = Inr r"
  shows "BlobLogRecord_HasTTL r = (ttl \<noteq> Some 4294967295)"
proof -
  from assms(3) have "rec_ttl_val r = ttl_field ttl"
    unfolding round_trip_record [OF assms(1,2)] by auto
  then show ?thesis
    by (cases ttl)
      (simp_all add: BlobLogRecord_HasTTL_def ucast_uint32_max ttl_field_def
        kNoExpiration_eq)
qed

text \<open>The bytes of that record, and what decoding them returns.\<close>

lemma RecordCodec_encode_example:
  "RecordCodec_encode sum_cksum LittleEndian kTTLType [1, 2] [3] (Some 5) 7 9 =
     [16, 0, 0, 0,  6, 0, 0, 0,  2, 0, 0, 0,  1, 0, 0, 0, 0, 0, 0, 0,
      5, 0, 0, 0, 0, 0, 0, 0,  7, 0, 0, 0, 0, 0, 0, 0,  0,  1,  1, 2,  3]"
  by code_simp

section \<open>Writer: sequence numbers\<close>









text \<open>
  The example of the specification: after records with sequence numbers 5, 7, 9 and 12
  the footer has the sequence-number range (5, 12) and the count 4, and an append with
  sequence number 6 is refused.
\<close>

lemma Writer_monotonic_ranges_example:
  "Writer_run (map (Append [1] [2] None 100) [5, 7, 9, 12]) = (w, h) \<Longrightarrow>
   h = [5, 7, 9, 12] \<and>
   GetSNRange (fst (Writer_close magic w)) = (5, 12) \<and>
   GetBlobCount (fst (Writer_close magic w)) = 4 \<and>
   fst (Writer_append [1] [2] None 100 6 w) = Inl SequenceOrderViolation"
  by (auto simp: Writer_run_def Writer_append_def Writer_open_def Writer_close_def
      below_max_sn_def widen_def GetSNRange_def GetBlobCount_def Let_def)

text \<open>
  Closing a writer to which nothing was appended gives the footer as the class declares
  its members.
\<close>

lemma Writer_close_without_append:
  "fst (Writer_close magic Writer_open) = BlobLogFooter_initial magic"
  by (simp add: Writer_close_def Writer_open_def BlobLogFooter_initial_def)

text \<open>Every append after \<^verbatim>\<open>close\<close> fails with \<^verbatim>\<open>WriterClosed\<close>.\<close>

lemma Writer_append_after_close:
  "Writer_append key blob ttl ts sn (snd (Writer_close magic w)) =
     (Inl WriterClosed, snd (Writer_close magic w))"
  by (simp add: Writer_append_def Writer_close_def)

end
